theory Spec2Isabelle
  imports Main
begin

section \<open>Python values used by the invoice parser\<close>

text \<open>
  A Python \<^verbatim>\<open>str\<close> is modelled as a \<^typ>\<open>string\<close> whose characters are the
  code points below 256; \<^const>\<open>length\<close> is then Python's \<^verbatim>\<open>len\<close>. The character
  classes below are the ones Python uses for such code points.
\<close>

text \<open>\<^verbatim>\<open>ord(c)\<close>.\<close>

definition ord :: "char \<Rightarrow> nat" where
  "ord c = of_char c"

text \<open>\<^verbatim>\<open>str.isspace\<close>, the set removed by \<^verbatim>\<open>str.strip()\<close> and matched by \<^verbatim>\<open>\s\<close>.\<close>

definition is_space :: "char \<Rightarrow> bool" where
  "is_space c = ((9 \<le> ord c \<and> ord c \<le> 13) \<or> (28 \<le> ord c \<and> ord c \<le> 32)
                 \<or> ord c = 133 \<or> ord c = 160)"

text \<open>The whitespace that \<^verbatim>\<open>int()\<close> and \<^verbatim>\<open>float()\<close> skip around a number.\<close>

definition is_num_space :: "char \<Rightarrow> bool" where
  "is_num_space c = ((9 \<le> ord c \<and> ord c \<le> 13) \<or> ord c = 32 \<or> ord c = 133 \<or> ord c = 160)"

definition is_digit :: "char \<Rightarrow> bool" where
  "is_digit c = (48 \<le> ord c \<and> ord c \<le> 57)"

definition is_upper :: "char \<Rightarrow> bool" where
  "is_upper c = (65 \<le> ord c \<and> ord c \<le> 90)"

definition is_lower :: "char \<Rightarrow> bool" where
  "is_lower c = (97 \<le> ord c \<and> ord c \<le> 122)"

text \<open>\<^verbatim>\<open>\w\<close> on a \<^verbatim>\<open>str\<close> pattern: alphanumeric code points and the underscore.\<close>

definition is_word :: "char \<Rightarrow> bool" where
  "is_word c = (is_digit c \<or> is_upper c \<or> is_lower c \<or> ord c = 95
                \<or> ord c = 170 \<or> ord c = 178 \<or> ord c = 179 \<or> ord c = 181
                \<or> ord c = 185 \<or> ord c = 186 \<or> (188 \<le> ord c \<and> ord c \<le> 190)
                \<or> (192 \<le> ord c \<and> ord c \<le> 214) \<or> (216 \<le> ord c \<and> ord c \<le> 246)
                \<or> 248 \<le> ord c)"

definition lower_ascii :: "char \<Rightarrow> char" where
  "lower_ascii c = (if is_upper c then char_of (ord c + 32) else c)"

definition strip_by :: "(char \<Rightarrow> bool) \<Rightarrow> string \<Rightarrow> string" where
  "strip_by p s = rev (dropWhile p (rev (dropWhile p s)))"

text \<open>\<^verbatim>\<open>s.strip()\<close> and \<^verbatim>\<open>s.strip(chars)\<close>.\<close>

definition strip :: "string \<Rightarrow> string" where
  "strip s = strip_by is_space s"

definition strip_chars :: "string \<Rightarrow> string \<Rightarrow> string" where
  "strip_chars chars s = strip_by (\<lambda>c. c \<in> set chars) s"

text \<open>\<^verbatim>\<open>s.replace(old, new)\<close>: non-overlapping occurrences, left to right.\<close>

fun replace_from :: "string \<Rightarrow> string \<Rightarrow> string \<Rightarrow> string" where
  "replace_from old new [] = []"
| "replace_from old new (c # cs) =
     (if old \<noteq> [] \<and> take (length old) (c # cs) = old
      then new @ replace_from old new (drop (length old) (c # cs))
      else c # replace_from old new cs)"

definition replace :: "string \<Rightarrow> string \<Rightarrow> string \<Rightarrow> string" where
  "replace old new s =
     (if old = [] then new @ concat (map (\<lambda>c. c # new) s) else replace_from old new s)"

text \<open>\<^verbatim>\<open>s.split(sep)\<close> for a one-character separator; the result is never empty.\<close>

fun split :: "char \<Rightarrow> string \<Rightarrow> string list" where
  "split sep [] = [[]]"
| "split sep (c # cs) =
     (case split sep cs of
        [] \<Rightarrow> (if c = sep then [[], []] else [[c]])
      | p # ps \<Rightarrow> (if c = sep then [] # p # ps else (c # p) # ps))"

text \<open>\<^verbatim>\<open>sep.join(parts)\<close>.\<close>

fun join :: "string \<Rightarrow> string list \<Rightarrow> string" where
  "join sep [] = []"
| "join sep [p] = p"
| "join sep (p # q # ps) = p @ sep @ join sep (q # ps)"

text \<open>
  \<^verbatim>\<open>s.splitlines()\<close>: the line boundaries below 256 are LF, VT, FF, CR, FS, GS, RS
  and NEL; CR LF is one boundary; a final boundary opens no further line.
\<close>

definition is_linebreak :: "char \<Rightarrow> bool" where
  "is_linebreak c = ((10 \<le> ord c \<and> ord c \<le> 13) \<or> (28 \<le> ord c \<and> ord c \<le> 30)
                     \<or> ord c = 133)"

fun splitlines_acc :: "string \<Rightarrow> string \<Rightarrow> string list" where
  "splitlines_acc acc [] = (if acc = [] then [] else [rev acc])"
| "splitlines_acc acc (c # cs) =
     (if is_linebreak c
      then rev acc # (case cs of
                        d # ds \<Rightarrow> if ord c = 13 \<and> ord d = 10 then splitlines_acc [] ds
                                   else splitlines_acc [] cs
                      | [] \<Rightarrow> splitlines_acc [] cs)
      else splitlines_acc (c # acc) cs)"

definition splitlines :: "string \<Rightarrow> string list" where
  "splitlines s = splitlines_acc [] s"


section \<open>Regular expressions as used through Python's \<^verbatim>\<open>re\<close>\<close>

text \<open>
  The patterns of the program use character classes, literals, sequencing, alternation,
  greedy and lazy repetition, optional parts and capturing groups. \<^verbatim>\<open>re\<close> is a
  backtracking matcher: of all ways to match at a start position it returns the first in
  priority order. \<open>rmatch r s c\<close> lists every way \<open>r\<close> matches a prefix of \<open>s\<close>, in
  that order, as the remaining input and the capture groups; a repetition does not
  iterate again after an empty iteration.
\<close>

type_synonym caps = "nat \<Rightarrow> string option"

datatype regex =
    Sym "char \<Rightarrow> bool"
  | Eps
  | Seq regex regex
  | Alt regex regex
  | Star bool regex
  | Grp nat regex

fun rmatch :: "regex \<Rightarrow> string \<Rightarrow> caps \<Rightarrow> (string \<times> caps) list" where
  "rmatch (Sym p) s c = (case s of [] \<Rightarrow> [] | x # xs \<Rightarrow> if p x then [(xs, c)] else [])"
| "rmatch Eps s c = [(s, c)]"
| "rmatch (Seq a b) s c = concat (map (\<lambda>(t, d). rmatch b t d) (rmatch a s c))"
| "rmatch (Alt a b) s c = rmatch a s c @ rmatch b s c"
| "rmatch (Star greedy a) s c =
     (let more = concat (map (\<lambda>(t, d). if length t < length s
                                          then rmatch (Star greedy a) t d else [])
                          (rmatch a s c))
      in if greedy then more @ [(s, c)] else (s, c) # more)"
| "rmatch (Grp n a) s c =
     map (\<lambda>(t, d). (t, d(n \<mapsto> take (length s - length t) s))) (rmatch a s c)"

declare rmatch.simps(5) [simp del]

definition no_caps :: caps where
  "no_caps = (\<lambda>_. None)"

text \<open>Pattern syntax: \<open>x+\<close>, \<open>x+?\<close>, \<open>x?\<close>, a literal, a literal under IGNORECASE.\<close>

definition Plus :: "bool \<Rightarrow> regex \<Rightarrow> regex" where
  "Plus greedy r = Seq r (Star greedy r)"

definition Opt :: "regex \<Rightarrow> regex" where
  "Opt r = Alt r Eps"

definition chr :: "char \<Rightarrow> regex" where
  "chr c = Sym (\<lambda>x. x = c)"

definition ichr :: "char \<Rightarrow> regex" where
  "ichr c = Sym (\<lambda>x. lower_ascii x = lower_ascii c)"

fun seqs :: "regex list \<Rightarrow> regex" where
  "seqs [] = Eps"
| "seqs [r] = r"
| "seqs (r # rs) = Seq r (seqs rs)"

definition lit :: "string \<Rightarrow> regex" where
  "lit s = seqs (map chr s)"

definition ilit :: "string \<Rightarrow> regex" where
  "ilit s = seqs (map ichr s)"

text \<open>
  \<^verbatim>\<open>pattern.search(s)\<close>: the first start position with a match, scanning from the
  left. The result is the input from the start of the match, the input after the match
  and the groups.
\<close>

fun re_search :: "regex \<Rightarrow> string \<Rightarrow> (string \<times> string \<times> caps) option" where
  "re_search r s =
     (case rmatch r s no_caps of
        (t, c) # _ \<Rightarrow> Some (s, t, c)
      | [] \<Rightarrow> (case s of [] \<Rightarrow> None | _ # xs \<Rightarrow> re_search r xs))"

declare re_search.simps [simp del]

text \<open>\<^verbatim>\<open>m.group(n)\<close> of a search result; \<open>None\<close> when the group took no part.\<close>

definition groups_of :: "regex \<Rightarrow> string \<Rightarrow> caps option" where
  "groups_of r s = map_option (\<lambda>(_, _, c). c) (re_search r s)"

text \<open>
  \<^verbatim>\<open>re.findall\<close> and \<^verbatim>\<open>re.sub\<close> scan for non-overlapping matches. After a match
  the scan resumes where the match ended; after an empty match it moves on by one
  character.
\<close>

fun re_findall :: "regex \<Rightarrow> string \<Rightarrow> caps list" where
  "re_findall r s =
     (case rmatch r s no_caps of
        (t, c) # _ \<Rightarrow>
          (if length t < length s then c # re_findall r t
           else (case s of [] \<Rightarrow> [c] | _ # xs \<Rightarrow> c # re_findall r xs))
      | [] \<Rightarrow> (case s of [] \<Rightarrow> [] | _ # xs \<Rightarrow> re_findall r xs))"

declare re_findall.simps [simp del]

fun re_sub :: "regex \<Rightarrow> string \<Rightarrow> string \<Rightarrow> string" where
  "re_sub r repl s =
     (case rmatch r s no_caps of
        (t, c) # _ \<Rightarrow>
          (if length t < length s then repl @ re_sub r repl t
           else (case s of [] \<Rightarrow> repl | x # xs \<Rightarrow> repl @ x # re_sub r repl xs))
      | [] \<Rightarrow> (case s of [] \<Rightarrow> [] | x # xs \<Rightarrow> x # re_sub r repl xs))"

declare re_sub.simps [simp del]


section \<open>The patterns of the program\<close>

text \<open>
  Character classes. Under IGNORECASE a class also matches the other case of its
  members; every class used with that flag is closed under ASCII case, so the
  predicate is the class itself.
\<close>

definition cls_sep :: "char \<Rightarrow> bool" where  \<comment> \<open>\<^verbatim>\<open>[:;\s]\<close>\<close>
  "cls_sep c = (c = CHR '':'' \<or> c = CHR '';'' \<or> is_space c)"

definition cls_code_a :: "char \<Rightarrow> bool" where  \<comment> \<open>\<^verbatim>\<open>[\w\d\-\[\]]\<close>\<close>
  "cls_code_a c = (is_word c \<or> is_digit c \<or> c = CHR ''-'' \<or> c = CHR ''['' \<or> c = CHR '']'')"

definition cls_code_b :: "char \<Rightarrow> bool" where  \<comment> \<open>\<^verbatim>\<open>[\w\d-]\<close>\<close>
  "cls_code_b c = (is_word c \<or> is_digit c \<or> c = CHR ''-'')"

definition cls_num :: "char \<Rightarrow> bool" where  \<comment> \<open>\<^verbatim>\<open>[\d,\.]\<close>\<close>
  "cls_num c = (is_digit c \<or> c = CHR '','' \<or> c = CHR ''.'')"

definition cls_desc :: "char \<Rightarrow> bool" where  \<comment> \<open>\<^verbatim>\<open>[A-Za-z0-9 /_-]\<close>\<close>
  "cls_desc c = (is_upper c \<or> is_lower c \<or> is_digit c \<or> c = CHR '' '' \<or> c = CHR ''/''
                 \<or> c = CHR ''_'' \<or> c = CHR ''-'')"

definition cls_upper_space :: "char \<Rightarrow> bool" where  \<comment> \<open>\<^verbatim>\<open>[A-Z\s]\<close>, no IGNORECASE\<close>
  "cls_upper_space c = (is_upper c \<or> is_space c)"

definition any_char :: "char \<Rightarrow> bool" where  \<comment> \<open>\<^verbatim>\<open>.\<close> under DOTALL\<close>
  "any_char c = True"

text \<open>
  \<^verbatim>\<open>Product Code[:;\s]*(PRD-[\w\d\-\[\]]+)\s+Quantity[:;\s]*(\d+)(?:\s+units)?\s+\<close>
  \<^verbatim>\<open>Unit\s*Price[:;\s]*\$?([\d,\.]+)\s+Amount[:;\s]*\$?([\d,\.]+)\<close>, IGNORECASE.
\<close>

definition PRODUCT_CODE_PATTERN_A :: regex where
  "PRODUCT_CODE_PATTERN_A = seqs
     [ilit ''Product Code'', Star True (Sym cls_sep),
      Grp 1 (Seq (ilit ''PRD-'') (Plus True (Sym cls_code_a))), Plus True (Sym is_space),
      ilit ''Quantity'', Star True (Sym cls_sep),
      Grp 2 (Plus True (Sym is_digit)),
      Opt (Seq (Plus True (Sym is_space)) (ilit ''units'')), Plus True (Sym is_space),
      ilit ''Unit'', Star True (Sym is_space), ilit ''Price'', Star True (Sym cls_sep),
      Opt (chr CHR ''$''), Grp 3 (Plus True (Sym cls_num)), Plus True (Sym is_space),
      ilit ''Amount'', Star True (Sym cls_sep),
      Opt (chr CHR ''$''), Grp 4 (Plus True (Sym cls_num))]"

text \<open>
  The VERBOSE pattern, its layout and comments dropped:
  \<^verbatim>\<open>(PRD-[\w\d-]+)\s+([A-Za-z0-9 /_-]+)\s+Qty[:;\s]*(\d+)\s+Price[:;\s]*\$?([\d.,]+)\<close>
  \<^verbatim>\<open>\s+Total[:;\s]*\$?([\d.,]+)(?:\s+PO:\s+PO\s*-\s*(\d+))?\<close>, IGNORECASE.
\<close>

definition PRODUCT_CODE_PATTERN_B :: regex where
  "PRODUCT_CODE_PATTERN_B = seqs
     [Grp 1 (Seq (ilit ''PRD-'') (Plus True (Sym cls_code_b))), Plus True (Sym is_space),
      Grp 2 (Plus True (Sym cls_desc)), Plus True (Sym is_space),
      ilit ''Qty'', Star True (Sym cls_sep), Grp 3 (Plus True (Sym is_digit)),
      Plus True (Sym is_space),
      ilit ''Price'', Star True (Sym cls_sep), Opt (chr CHR ''$''),
      Grp 4 (Plus True (Sym cls_num)), Plus True (Sym is_space),
      ilit ''Total'', Star True (Sym cls_sep), Opt (chr CHR ''$''),
      Grp 5 (Plus True (Sym cls_num)),
      Opt (seqs [Plus True (Sym is_space), ilit ''PO:'', Plus True (Sym is_space),
                 ilit ''PO'', Star True (Sym is_space), chr CHR ''-'',
                 Star True (Sym is_space), Grp 6 (Plus True (Sym is_digit))])]"

text \<open>
  \<^verbatim>\<open>(.*?)\s+Hours[:;\s]*(\d+)\s*x\s*Rate[:;\s]*\$?([\d,\.]+)\s*/hr\s+Amount[:;\s]*\$?([\d,\.]+)\<close>,
  IGNORECASE and DOTALL.
\<close>

definition SERVICE_PATTERN :: regex where
  "SERVICE_PATTERN = seqs
     [Grp 1 (Star False (Sym any_char)), Plus True (Sym is_space),
      ilit ''Hours'', Star True (Sym cls_sep), Grp 2 (Plus True (Sym is_digit)),
      Star True (Sym is_space), ichr CHR ''x'', Star True (Sym is_space),
      ilit ''Rate'', Star True (Sym cls_sep), Opt (chr CHR ''$''),
      Grp 3 (Plus True (Sym cls_num)), Star True (Sym is_space), ilit ''/hr'',
      Plus True (Sym is_space),
      ilit ''Amount'', Star True (Sym cls_sep), Opt (chr CHR ''$''),
      Grp 4 (Plus True (Sym cls_num))]"

text \<open>\<^verbatim>\<open>Invoice Number[:\s]*([\w\d-]+)\<close>, IGNORECASE.\<close>

definition invoice_pat :: regex where
  "invoice_pat = seqs
     [ilit ''Invoice Number'', Star True (Sym (\<lambda>c. c = CHR '':'' \<or> is_space c)),
      Grp 1 (Plus True (Sym cls_code_b))]"

text \<open>\<^verbatim>\<open>(PO[-\s]?|Purchase Order[:\s#]?)\s*(\d+)\<close>, IGNORECASE.\<close>

definition po_pat :: regex where
  "po_pat = seqs
     [Grp 1 (Alt (Seq (ilit ''PO'') (Opt (Sym (\<lambda>c. c = CHR ''-'' \<or> is_space c))))
                 (Seq (ilit ''Purchase Order'')
                      (Opt (Sym (\<lambda>c. c = CHR '':'' \<or> is_space c \<or> c = CHR ''#''))))),
      Star True (Sym is_space), Grp 2 (Plus True (Sym is_digit))]"

text \<open>
  \<^verbatim>\<open>([A-Z\s]+LTD|INC|GMBH)\n(.+?)\n\<close>, DOTALL. The alternation binds weaker than
  the sequence: the three alternatives of group 1 are \<^verbatim>\<open>[A-Z\s]+LTD\<close>, \<^verbatim>\<open>INC\<close>
  and \<^verbatim>\<open>GMBH\<close>.
\<close>

definition supplier_pat :: regex where
  "supplier_pat = seqs
     [Grp 1 (Alt (Seq (Plus True (Sym cls_upper_space)) (lit ''LTD''))
                 (Alt (lit ''INC'') (lit ''GMBH''))),
      chr (CHR 0x0A), Grp 2 (Plus False (Sym any_char)), chr (CHR 0x0A)]"

text \<open>\<^verbatim>\<open>P\s*r\s*i\s*c\s*e\s*:\<close> and \<^verbatim>\<open>Q\s*ty\s*:\<close>, IGNORECASE; \<^verbatim>\<open>\.\.+\<close>.\<close>

definition price_label_pat :: regex where
  "price_label_pat = seqs
     [ichr CHR ''P'', Star True (Sym is_space), ichr CHR ''r'', Star True (Sym is_space),
      ichr CHR ''i'', Star True (Sym is_space), ichr CHR ''c'', Star True (Sym is_space),
      ichr CHR ''e'', Star True (Sym is_space), chr CHR '':'']"

definition qty_label_pat :: regex where
  "qty_label_pat = seqs
     [ichr CHR ''Q'', Star True (Sym is_space), ilit ''ty'', Star True (Sym is_space),
      chr CHR '':'']"

definition dot_run_pat :: regex where
  "dot_run_pat = Seq (chr CHR ''.'') (Plus True (chr CHR ''.''))"


section \<open>Python numbers\<close>

text \<open>
  A Python \<^verbatim>\<open>float\<close> is an IEEE 754 binary64 value. \<open>Fin m e\<close> denotes the finite
  value \<open>m * 2^e\<close>, with \<open>m\<close> odd, or \<open>m = 0\<close> and \<open>e = 0\<close>: each finite value has
  one representation. Every operation rounds its exact result to the nearest binary64
  value, ties to even (\<open>round_ratio\<close>). The sign of zero is not kept: no comparison
  of the program depends on it.
\<close>

datatype pyfloat = Fin int int | PInf | NInf | NaN

text \<open>
  The exceptions of the model. \<open>CollaboratorError\<close> stands for whatever
  \<^verbatim>\<open>Exception\<close> a library call on the document raises.
\<close>

datatype py_error = OverflowError | ValueError | TypeError | AttributeError | CollaboratorError

text \<open>The number of binary digits of a positive integer.\<close>

function bit_len :: "int \<Rightarrow> int" where
  "bit_len n = (if n \<le> 0 then 0 else 1 + bit_len (n div 2))"
  by pat_completeness auto
termination
  by (relation "measure nat") auto

declare bit_len.simps [simp del]

function norm_float :: "int \<Rightarrow> int \<Rightarrow> pyfloat" where
  "norm_float m e =
     (if m = 0 then Fin 0 0 else if even m then norm_float (m div 2) (e + 1) else Fin m e)"
  by pat_completeness auto
termination
  by (relation "measure (\<lambda>(m, e). nat \<bar>m\<bar>)") auto

declare norm_float.simps [simp del]

text \<open>The integer nearest to \<open>N / D\<close> for \<open>D > 0\<close>, ties to even.\<close>

definition round_half_even_div :: "int \<Rightarrow> int \<Rightarrow> int" where
  "round_half_even_div N D =
     (let q = N div D; r = N mod D
      in if 2 * r < D then q else if D < 2 * r then q + 1
         else if even q then q else q + 1)"

text \<open>
  \<open>round_ratio N D E\<close>, for \<open>D > 0\<close>, is the binary64 value nearest to
  \<open>(N / D) * 2^E\<close>. \<open>fl0\<close> is the binary logarithm of \<open>\<bar>N\<bar> / D\<close>, rounded down. A
  value keeps 53 significant bits and its least exponent is \<open>-1074\<close>, which gives the
  exponent \<open>e\<close> of the result; a result of magnitude \<open>2^1024\<close> or more is an infinity.
\<close>

definition round_ratio :: "int \<Rightarrow> int \<Rightarrow> int \<Rightarrow> pyfloat" where
  "round_ratio N D E =
     (let a = \<bar>N\<bar>;
          t = bit_len a - bit_len D;
          fl0 = (if (0 \<le> t \<and> D * 2 ^ nat t \<le> a) \<or> (t < 0 \<and> D \<le> a * 2 ^ nat (- t))
                 then t else t - 1);
          e = max (fl0 + E - 52) (- 1074);
          s = e - E;
          m = round_half_even_div (a * 2 ^ nat (- s)) (D * 2 ^ nat s)
      in if 0 < m \<and> 1024 < bit_len m + e then (if 0 < N then PInf else NInf)
         else norm_float (if 0 < N then m else - m) e)"

text \<open>The \<^verbatim>\<open>float\<close> nearest to \<open>n * 10^e\<close>: what a decimal literal denotes.\<close>

definition float_of_decimal :: "int \<Rightarrow> int \<Rightarrow> pyfloat" where
  "float_of_decimal n e =
     (if 0 \<le> e then round_ratio (n * 10 ^ nat e) 1 0
      else round_ratio n (10 ^ nat (- e)) 0)"

text \<open>
  \<^verbatim>\<open>int * float\<close> first converts the \<^verbatim>\<open>int\<close>, which is unbounded, to the
  nearest \<^verbatim>\<open>float\<close>; the conversion raises \<^verbatim>\<open>OverflowError\<close> when the rounded
  value is out of range.
\<close>

definition int_to_float :: "int \<Rightarrow> pyfloat" where
  "int_to_float q = round_ratio q 1 0"

definition float_of_int :: "int \<Rightarrow> py_error + pyfloat" where
  "float_of_int q =
     (case int_to_float q of Fin m e \<Rightarrow> Inr (Fin m e) | _ \<Rightarrow> Inl OverflowError)"

fun fmul :: "pyfloat \<Rightarrow> pyfloat \<Rightarrow> pyfloat" where
  "fmul NaN _ = NaN"
| "fmul _ NaN = NaN"
| "fmul (Fin a i) (Fin b j) = round_ratio (a * b) 1 (i + j)"
| "fmul (Fin a i) PInf = (if a = 0 then NaN else if 0 < a then PInf else NInf)"
| "fmul (Fin a i) NInf = (if a = 0 then NaN else if 0 < a then NInf else PInf)"
| "fmul PInf (Fin b j) = (if b = 0 then NaN else if 0 < b then PInf else NInf)"
| "fmul NInf (Fin b j) = (if b = 0 then NaN else if 0 < b then NInf else PInf)"
| "fmul PInf PInf = PInf"
| "fmul PInf NInf = NInf"
| "fmul NInf PInf = NInf"
| "fmul NInf NInf = PInf"

fun fsub :: "pyfloat \<Rightarrow> pyfloat \<Rightarrow> pyfloat" where
  "fsub NaN _ = NaN"
| "fsub _ NaN = NaN"
| "fsub (Fin a i) (Fin b j) =
     (let e = min i j in round_ratio (a * 2 ^ nat (i - e) - b * 2 ^ nat (j - e)) 1 e)"
| "fsub (Fin a i) PInf = NInf"
| "fsub (Fin a i) NInf = PInf"
| "fsub PInf PInf = NaN"
| "fsub NInf NInf = NaN"
| "fsub PInf _ = PInf"
| "fsub NInf _ = NInf"

fun fabs :: "pyfloat \<Rightarrow> pyfloat" where
  "fabs (Fin a i) = Fin \<bar>a\<bar> i"
| "fabs PInf = PInf"
| "fabs NInf = PInf"
| "fabs NaN = NaN"

text \<open>\<^verbatim>\<open>a > b\<close>; every comparison with a NaN is false.\<close>

fun fgt :: "pyfloat \<Rightarrow> pyfloat \<Rightarrow> bool" where
  "fgt NaN _ = False"
| "fgt _ NaN = False"
| "fgt (Fin a i) (Fin b j) = (let e = min i j in b * 2 ^ nat (j - e) < a * 2 ^ nat (i - e))"
| "fgt PInf PInf = False"
| "fgt PInf _ = True"
| "fgt NInf _ = False"
| "fgt (Fin a i) NInf = True"
| "fgt (Fin a i) PInf = False"

text \<open>
  \<^verbatim>\<open>round(x, 2)\<close>: the exact value of \<open>x\<close> rounded to two decimals, ties to even,
  then to the nearest \<^verbatim>\<open>float\<close>; infinities and NaN are returned unchanged.
\<close>

fun round2 :: "pyfloat \<Rightarrow> pyfloat" where
  "round2 (Fin a i) =
     round_ratio (if 0 \<le> i then 100 * a * 2 ^ nat i
                  else round_half_even_div (100 * a) (2 ^ nat (- i))) 100 0"
| "round2 x = x"

text \<open>The literals \<^verbatim>\<open>0.0\<close> and \<^verbatim>\<open>0.01\<close>.\<close>

definition zero_float :: pyfloat where
  "zero_float = Fin 0 0"

definition tolerance :: pyfloat where
  "tolerance = float_of_decimal 1 (- 2)"

subsection \<open>\<^verbatim>\<open>int(s)\<close> and \<^verbatim>\<open>float(s)\<close> on a string\<close>

definition digits_val :: "string \<Rightarrow> int" where
  "digits_val ds = foldl (\<lambda>a c. 10 * a + (int (ord c) - 48)) 0 ds"

text \<open>An underscore may only stand between two digits.\<close>

fun underscores_ok :: "char \<Rightarrow> string \<Rightarrow> bool" where
  "underscores_ok prev [] = (prev \<noteq> CHR ''_'')"
| "underscores_ok prev (c # cs) =
     (if c = CHR ''_'' then is_digit prev \<and> underscores_ok c cs
      else (prev = CHR ''_'' \<longrightarrow> is_digit c) \<and> underscores_ok c cs)"

definition split_sign :: "string \<Rightarrow> bool \<times> string" where
  "split_sign s =
     (case s of
        c # cs \<Rightarrow> if c = CHR ''-'' then (True, cs) else if c = CHR ''+'' then (False, cs)
                  else (False, s)
      | [] \<Rightarrow> (False, s))"

text \<open>
  \<^verbatim>\<open>int(s)\<close> in base 10; \<open>None\<close> is \<^verbatim>\<open>ValueError\<close>. CPython refuses a string of more
  than \<^verbatim>\<open>sys.get_int_max_str_digits()\<close> digits with \<^verbatim>\<open>ValueError\<close>; the limit is
  4300 unless configured, and 0 turns it off.
\<close>

definition py_int :: "nat \<Rightarrow> string \<Rightarrow> int option" where
  "py_int max_str_digits s =
     (let (neg, u) = split_sign (strip_by is_num_space s);
          ds = filter (\<lambda>c. c \<noteq> CHR ''_'') u
      in if underscores_ok (CHR 0x00) u \<and> ds \<noteq> [] \<and> list_all is_digit ds
            \<and> (max_str_digits = 0 \<or> length ds \<le> max_str_digits)
         then Some (if neg then - digits_val ds else digits_val ds)
         else None)"

definition default_max_str_digits :: nat where
  "default_max_str_digits = 4300"

text \<open>
  \<^verbatim>\<open>float(s)\<close>; \<open>None\<close> is \<^verbatim>\<open>ValueError\<close>. The grammar is an optional sign, then
  \<^verbatim>\<open>inf\<close>, \<^verbatim>\<open>infinity\<close> or \<^verbatim>\<open>nan\<close> in any case, or a decimal number with an
  optional exponent; the value is the nearest \<^verbatim>\<open>float\<close>.
\<close>

definition decimal_value :: "bool \<Rightarrow> string \<Rightarrow> string \<Rightarrow> int \<Rightarrow> pyfloat" where
  "decimal_value neg ip fp e =
     float_of_decimal (if neg then - digits_val (ip @ fp) else digits_val (ip @ fp))
                      (e - int (length fp))"

definition parse_float_body :: "string \<Rightarrow> pyfloat option" where
  "parse_float_body t =
     (let (neg, u) = split_sign t; lu = map lower_ascii u
      in if lu = ''inf'' \<or> lu = ''infinity'' then Some (if neg then NInf else PInf)
         else if lu = ''nan'' then Some NaN
         else
           let ip = takeWhile is_digit u; r1 = dropWhile is_digit u;
               (fp, r2) = (case r1 of
                             c # r \<Rightarrow> if c = CHR ''.''
                                       then (takeWhile is_digit r, dropWhile is_digit r)
                                       else ([], r1)
                           | [] \<Rightarrow> ([], r1))
           in if ip = [] \<and> fp = [] then None
              else (case r2 of
                      [] \<Rightarrow> Some (decimal_value neg ip fp 0)
                    | x # r3 \<Rightarrow>
                        if lower_ascii x = CHR ''e''
                        then (let (eneg, ed) = split_sign r3
                              in if ed \<noteq> [] \<and> list_all is_digit ed
                                 then Some (decimal_value neg ip fp
                                              (if eneg then - digits_val ed
                                               else digits_val ed))
                                 else None)
                        else None))"

definition py_float :: "string \<Rightarrow> pyfloat option" where
  "py_float s =
     (let t = strip_by is_num_space s
      in if underscores_ok (CHR 0x00) t
         then parse_float_body (filter (\<lambda>c. c \<noteq> CHR ''_'') t) else None)"


section \<open>\<^verbatim>\<open>cleanup_line\<close> and \<^verbatim>\<open>fix_float\<close>\<close>

definition cleanup_line :: "string \<Rightarrow> string" where
  "cleanup_line line =
     (let line = re_sub price_label_pat ''Price:'' line;
          line = re_sub qty_label_pat ''Qty:'' line
      in line)"

text \<open>
  The bare \<^verbatim>\<open>except\<close> around \<^verbatim>\<open>float(raw)\<close> turns every parse failure into
  \<^verbatim>\<open>0.0\<close>. \<^verbatim>\<open>parts[1:-1]\<close> is \<open>butlast (tl parts)\<close>.
\<close>

definition clean_token :: "string \<Rightarrow> string" where
  "clean_token v =
     (let raw = strip v;
          raw = replace ''_'' [] (replace ''S'' [] raw);
          raw = replace ''.,'' ''.'' raw;
          raw = replace '','' ''.'' raw;
          parts = split CHR ''.'' raw;
          raw = (if length parts > 2
                 then hd parts @ concat (butlast (tl parts)) @ ''.'' @ last parts
                 else raw);
          raw = re_sub dot_run_pat ''.'' raw;
          raw = replace '' '' [] raw;
          raw = (if raw = [] then ''0'' else raw)
      in raw)"

definition fix_float :: "string \<Rightarrow> pyfloat" where
  "fix_float v = (case py_float (clean_token v) of Some x \<Rightarrow> x | None \<Rightarrow> zero_float)"


definition MIN_CHAR_THRESHOLD :: nat where
  "MIN_CHAR_THRESHOLD = 100"

definition MAX_LINE_MERGE :: nat where
  "MAX_LINE_MERGE = 6"

text \<open>\<^verbatim>\<open>int(s)\<close> under the interpreter's default digit limit.\<close>

definition int_of_str :: "string \<Rightarrow> int option" where
  "int_of_str s = py_int default_max_str_digits s"


section \<open>Header fields\<close>

definition extract_invoice_details :: "string \<Rightarrow> string option" where
  "extract_invoice_details text =
     (case groups_of invoice_pat text of Some m \<Rightarrow> m 1 | None \<Rightarrow> None)"

text \<open>\<^verbatim>\<open>re.findall\<close> gives the empty string for a group that took no part.\<close>

definition extract_po_numbers :: "string \<Rightarrow> string list" where
  "extract_po_numbers text =
     map (\<lambda>m. case m 2 of Some x \<Rightarrow> x | None \<Rightarrow> []) (re_findall po_pat text)"

text \<open>
  The result is the pair of \<^verbatim>\<open>name\<close> and \<^verbatim>\<open>address\<close>. \<^verbatim>\<open>m.group(n).strip()\<close>
  raises on a group that took no part.
\<close>

definition extract_supplier_info :: "string \<Rightarrow> py_error + (string \<times> string) option" where
  "extract_supplier_info text =
     (case groups_of supplier_pat text of
        None \<Rightarrow> Inr None
      | Some m \<Rightarrow>
          (case (m 1, m 2) of
             (Some name, Some address) \<Rightarrow> Inr (Some (strip name, strip address))
           | _ \<Rightarrow> Inl AttributeError))"


section \<open>Line items\<close>

text \<open>
  The records are Python dictionaries with fixed keys; \<^verbatim>\<open>description\<close> and
  \<^verbatim>\<open>po_number\<close> are the keys that may be absent.
\<close>

record product =
  product_code :: string
  description :: "string option"
  quantity :: int
  unit_price :: pyfloat
  total_price :: pyfloat
  po_number :: "string option"

record service =
  service_name :: string
  hours :: int
  rate_per_hour :: pyfloat
  amount :: pyfloat

text \<open>
  The three builders append to the list they are given. \<^verbatim>\<open>except ValueError\<close> only
  logs, so a failing \<^verbatim>\<open>int()\<close> leaves the list as it is. Using a group that took no
  part raises an exception that the handler does not catch.
\<close>

definition parse_pattern_a :: "caps \<Rightarrow> product list \<Rightarrow> py_error + product list" where
  "parse_pattern_a m products_list =
     (case (m 1, m 2, m 3, m 4) of
        (Some code, Some qty_str, Some up_str, Some amt_str) \<Rightarrow>
          (case int_of_str qty_str of
             None \<Rightarrow> Inr products_list
           | Some q \<Rightarrow>
               Inr (products_list @
                    [\<lparr>product_code = code, description = None, quantity = q,
                      unit_price = fix_float up_str, total_price = fix_float amt_str,
                      po_number = None\<rparr>]))
      | _ \<Rightarrow> Inl TypeError)"

definition parse_pattern_b :: "caps \<Rightarrow> product list \<Rightarrow> py_error + product list" where
  "parse_pattern_b m products_list =
     (case (m 1, m 2, m 3, m 4, m 5) of
        (Some g1, Some g2, Some g3, Some g4, Some g5) \<Rightarrow>
          (let code = strip g1; descr = strip g2; qty_str = strip g3;
               price_str = strip g4; total_str = strip g5; po_num = m 6
           in case int_of_str qty_str of
                None \<Rightarrow> Inr products_list
              | Some q \<Rightarrow>
                  Inr (products_list @
                       [\<lparr>product_code = code, description = Some descr, quantity = q,
                         unit_price = fix_float price_str, total_price = fix_float total_str,
                         po_number = (case po_num of
                                        Some po \<Rightarrow> if po \<noteq> [] then Some po else None
                                      | None \<Rightarrow> None)\<rparr>]))
      | _ \<Rightarrow> Inl AttributeError)"

definition parse_pattern_service :: "caps \<Rightarrow> service list \<Rightarrow> py_error + service list" where
  "parse_pattern_service m services_list =
     (case (m 1, m 2, m 3, m 4) of
        (Some g1, Some g2, Some g3, Some g4) \<Rightarrow>
          (let svc_name = strip_chars ('':,.- '' @ [CHR 0x0A]) g1; hrs_str = strip g2;
               rate_str = strip g3; amt_str = strip g4
           in case int_of_str hrs_str of
                None \<Rightarrow> Inr services_list
              | Some h \<Rightarrow>
                  Inr (services_list @
                       [\<lparr>service_name = svc_name, hours = h,
                         rate_per_hour = fix_float rate_str, amount = fix_float amt_str\<rparr>]))
      | _ \<Rightarrow> Inl AttributeError)"

text \<open>
  \<^verbatim>\<open>try_match_line\<close>: the two lists are passed and returned; the Boolean is the
  function's result.
\<close>

definition try_match_line ::
  "string \<Rightarrow> product list \<Rightarrow> service list
   \<Rightarrow> py_error + (product list \<times> service list \<times> bool)" where
  "try_match_line line products services =
     (case groups_of PRODUCT_CODE_PATTERN_A line of
        Some mA \<Rightarrow>
          (case parse_pattern_a mA products of
             Inl e \<Rightarrow> Inl e | Inr ps \<Rightarrow> Inr (ps, services, True))
      | None \<Rightarrow>
          (case groups_of PRODUCT_CODE_PATTERN_B line of
             Some mB \<Rightarrow>
               (case parse_pattern_b mB products of
                  Inl e \<Rightarrow> Inl e | Inr ps \<Rightarrow> Inr (ps, services, True))
           | None \<Rightarrow>
               (case groups_of SERVICE_PATTERN line of
                  Some mS \<Rightarrow>
                    (case parse_pattern_service mS services of
                       Inl e \<Rightarrow> Inl e | Inr ss \<Rightarrow> Inr (products, ss, True))
                | None \<Rightarrow> Inr (products, services, False))))"

text \<open>
  The string built for \<^verbatim>\<open>merge_count\<close>: the stripped current line, then a space and
  the stripped line for each of the next \<^verbatim>\<open>merge_count\<close> lines.
\<close>

definition merged_line :: "string list \<Rightarrow> nat \<Rightarrow> string \<Rightarrow> nat \<Rightarrow> string" where
  "merged_line lines i line merge_count =
     line @ concat (map (\<lambda>k. '' '' @ strip (lines ! (i + k))) [1..<merge_count + 1])"

text \<open>
  The \<^verbatim>\<open>for merge_count in range(1, MAX_LINE_MERGE)\<close> loop over the counts still to
  try; the result holds the count that matched, if any.
\<close>

fun merge_attempts ::
  "string list \<Rightarrow> nat \<Rightarrow> string \<Rightarrow> nat list \<Rightarrow> product list \<Rightarrow> service list
   \<Rightarrow> py_error + (product list \<times> service list \<times> nat option)" where
  "merge_attempts lines i line [] products services = Inr (products, services, None)"
| "merge_attempts lines i line (merge_count # rest) products services =
     (if i + merge_count < length lines
      then (case try_match_line (merged_line lines i line merge_count) products services of
              Inl e \<Rightarrow> Inl e
            | Inr (ps, ss, m_ok) \<Rightarrow>
                if m_ok then Inr (ps, ss, Some merge_count)
                else merge_attempts lines i line rest ps ss)
      else Inr (products, services, None))"

text \<open>One pass through the body of the \<^verbatim>\<open>while\<close> loop: the new cursor and lists.\<close>

definition cursor_step ::
  "string list \<Rightarrow> nat \<Rightarrow> product list \<Rightarrow> service list
   \<Rightarrow> py_error + (nat \<times> product list \<times> service list)" where
  "cursor_step lines i products services =
     (let line = strip (lines ! i)
      in if line = [] then Inr (i + 1, products, services)
         else
           (case try_match_line line products services of
              Inl e \<Rightarrow> Inl e
            | Inr (ps, ss, matched) \<Rightarrow>
                if matched then Inr (i + 1, ps, ss)
                else
                  (case merge_attempts lines i line [1..<MAX_LINE_MERGE] ps ss of
                     Inl e \<Rightarrow> Inl e
                   | Inr (ps', ss', Some merge_count) \<Rightarrow> Inr (i + (merge_count + 1), ps', ss')
                   | Inr (ps', ss', None) \<Rightarrow> Inr (i + 1, ps', ss'))))"


lemma cursor_step_advances:
  "cursor_step lines i products services = Inr (i', ps, ss) \<Longrightarrow> i < i'"
  by (auto simp: cursor_step_def Let_def split: if_splits sum.splits prod.splits option.splits)

text \<open>The \<^verbatim>\<open>while i < len(lines)\<close> loop.\<close>

function tokenize_from ::
  "string list \<Rightarrow> nat \<Rightarrow> product list \<Rightarrow> service list
   \<Rightarrow> py_error + (product list \<times> service list)" where
  "tokenize_from lines i products services =
     (if i < length lines
      then (case cursor_step lines i products services of
              Inl e \<Rightarrow> Inl e
            | Inr (i', ps, ss) \<Rightarrow> tokenize_from lines i' ps ss)
      else Inr (products, services))"
  by pat_completeness auto
termination
  by (relation "measure (\<lambda>(lines, i, products, services). length lines - i)")
     (auto dest: cursor_step_advances)

declare tokenize_from.simps [simp del]

definition extract_line_by_line_items ::
  "string \<Rightarrow> py_error + (product list \<times> service list)" where
  "extract_line_by_line_items extracted_text =
     tokenize_from (map cleanup_line (splitlines extracted_text)) 0 [] []"


section \<open>Consistency reports\<close>

text \<open>
  An entry of \<^verbatim>\<open>price_mismatches\<close>; \<open>item\<close> is its \<^verbatim>\<open>product_code\<close> or
  \<^verbatim>\<open>service_name\<close>.
\<close>

record mismatch =
  item :: string
  expected_total :: pyfloat
  actual_total :: pyfloat

record price_report =
  price_mismatches :: "mismatch list"
  total_inconsistencies :: nat

record po_report =
  missing_in_extracted :: "string list"
  unused_in_products :: "string list"
  po_total_inconsistencies :: nat

text \<open>
  The loop of \<^verbatim>\<open>generate_consistency_report_for_products\<close> with the list built so
  far. \<^verbatim>\<open>quantity * unit_price\<close> converts the quantity to a \<^verbatim>\<open>float\<close> first.
\<close>

fun product_mismatches ::
  "mismatch list \<Rightarrow> product list \<Rightarrow> py_error + mismatch list" where
  "product_mismatches mismatches [] = Inr mismatches"
| "product_mismatches mismatches (p # ps) =
     (case float_of_int (quantity p) of
        Inl e \<Rightarrow> Inl e
      | Inr q \<Rightarrow>
          (let exp = fmul q (unit_price p); act = total_price p
           in if fgt (fabs (fsub exp act)) tolerance
              then product_mismatches
                     (mismatches @ [\<lparr>item = product_code p, expected_total = round2 exp,
                                     actual_total = act\<rparr>]) ps
              else product_mismatches mismatches ps))"

definition generate_consistency_report_for_products ::
  "product list \<Rightarrow> py_error + price_report" where
  "generate_consistency_report_for_products products =
     (case product_mismatches [] products of
        Inl e \<Rightarrow> Inl e
      | Inr mismatches \<Rightarrow>
          Inr \<lparr>price_mismatches = mismatches, total_inconsistencies = length mismatches\<rparr>)"

fun service_mismatches ::
  "mismatch list \<Rightarrow> service list \<Rightarrow> py_error + mismatch list" where
  "service_mismatches mismatches [] = Inr mismatches"
| "service_mismatches mismatches (s # ss) =
     (case float_of_int (hours s) of
        Inl e \<Rightarrow> Inl e
      | Inr h \<Rightarrow>
          (let exp = fmul h (rate_per_hour s); act = amount s
           in if fgt (fabs (fsub exp act)) tolerance
              then service_mismatches
                     (mismatches @ [\<lparr>item = service_name s, expected_total = round2 exp,
                                     actual_total = act\<rparr>]) ss
              else service_mismatches mismatches ss))"

definition generate_consistency_report_for_services ::
  "service list \<Rightarrow> py_error + price_report" where
  "generate_consistency_report_for_services services =
     (case service_mismatches [] services of
        Inl e \<Rightarrow> Inl e
      | Inr mismatches \<Rightarrow>
          Inr \<lparr>price_mismatches = mismatches, total_inconsistencies = length mismatches\<rparr>)"

text \<open>
  \<^verbatim>\<open>"po_number" in p and p["po_number"]\<close>: the key is present and its string is not
  empty.
\<close>

definition product_po_list :: "product list \<Rightarrow> string list" where
  "product_po_list products =
     concat (map (\<lambda>p. case po_number p of
                          Some po \<Rightarrow> if po \<noteq> [] then [po] else []
                        | None \<Rightarrow> []) products)"

definition generate_po_consistency_report :: "product list \<Rightarrow> string list \<Rightarrow> po_report" where
  "generate_po_consistency_report products po_numbers =
     (let missing = filter (\<lambda>po. po \<notin> set po_numbers) (product_po_list products);
          unused = filter (\<lambda>po. po \<notin> set (product_po_list products)) po_numbers
      in \<lparr>missing_in_extracted = missing, unused_in_products = unused,
           po_total_inconsistencies = length missing + length unused\<rparr>)"


section \<open>The document and the acquisition cascade\<close>

text \<open>
  What the library calls return for one PDF file. A table is the grid of cell texts of
  its data frame, one list per row, all of one length. \<open>camelot_read\<close> is
  \<^verbatim>\<open>camelot.read_pdf\<close>; \<open>pypdf2_pages\<close> is opening the file and taking
  \<^verbatim>\<open>page.extract_text() or ""\<close> of each page; \<open>ocr_pages\<close> is
  \<^verbatim>\<open>pdf2image.convert_from_path\<close>, with for each page image the text blocks that
  \<^verbatim>\<open>preprocess_image\<close> and \<^verbatim>\<open>reader.readtext\<close> give. Each call may raise.
\<close>

type_synonym table = "string list list"

record document =
  camelot_read :: "py_error + table list"
  pypdf2_pages :: "py_error + string list"
  ocr_pages :: "py_error + (py_error + string list) list"

definition newline :: string where
  "newline = [CHR 0x0A]"

definition extract_text_with_pypdf2 :: "document \<Rightarrow> string" where
  "extract_text_with_pypdf2 doc =
     (case pypdf2_pages doc of Inl e \<Rightarrow> [] | Inr text_output \<Rightarrow> join newline text_output)"

fun ocr_loop :: "string \<Rightarrow> (py_error + string list) list \<Rightarrow> py_error + string" where
  "ocr_loop extracted_text [] = Inr extracted_text"
| "ocr_loop extracted_text (img # images) =
     (case img of
        Inl e \<Rightarrow> Inl e
      | Inr blocks \<Rightarrow> ocr_loop (extracted_text @ join '' '' blocks @ newline) images)"

definition ocr_with_easyocr :: "document \<Rightarrow> py_error + string" where
  "ocr_with_easyocr doc =
     (case ocr_pages doc of Inl e \<Rightarrow> Inl e | Inr images \<Rightarrow> ocr_loop [] images)"

definition pdf_to_text_fallback :: "document \<Rightarrow> nat \<Rightarrow> py_error + string" where
  "pdf_to_text_fallback doc min_char =
     (let txt = extract_text_with_pypdf2 doc
      in if length txt \<ge> min_char then Inr txt else ocr_with_easyocr doc)"

text \<open>
  A row as a dictionary from the header cells to its cells; when a header text occurs
  twice the later column is the one kept.
\<close>

definition row_to_dict :: "string list \<Rightarrow> string list \<Rightarrow> (string \<rightharpoonup> string)" where
  "row_to_dict header row = map_of (rev (zip header row))"

definition parse_camelot_tables :: "table list \<Rightarrow> (string \<rightharpoonup> string) list" where
  "parse_camelot_tables tables =
     concat (map (\<lambda>df. if length df < 2 then []
                        else map (row_to_dict (hd df)) (tl df)) tables)"

text \<open>\<^verbatim>\<open>row.get(key, default)\<close>.\<close>

definition dict_get :: "(string \<rightharpoonup> string) \<Rightarrow> string \<Rightarrow> string \<Rightarrow> string" where
  "dict_get row key dflt = (case row key of Some v \<Rightarrow> v | None \<Rightarrow> dflt)"

text \<open>
  The body of the loop over \<^verbatim>\<open>table_rows\<close>. Of the three conversions in the
  \<^verbatim>\<open>try\<close> only \<^verbatim>\<open>int(qty)\<close> can raise; the bare \<^verbatim>\<open>except\<close> then sets all three
  numbers.
\<close>

definition table_row_product :: "(string \<rightharpoonup> string) \<Rightarrow> product" where
  "table_row_product row =
     (let code = dict_get row ''Product Code'' [];
          qty = dict_get row ''Qty'' ''0'';
          price = dict_get row ''Price'' ''0'';
          total = dict_get row ''Total'' ''0'';
          (q, p, t) = (case int_of_str qty of
                         Some q \<Rightarrow> (q, fix_float price, fix_float total)
                       | None \<Rightarrow> (0, zero_float, zero_float))
      in \<lparr>product_code = code, description = None, quantity = q, unit_price = p,
           total_price = t, po_number = None\<rparr>)"

record extraction_result =
  invoice_number :: "string option"
  supplier_info :: "(string \<times> string) option"
  po_numbers :: "string list"
  products :: "product list"
  services :: "service list"
  product_inconsistencies :: price_report
  service_inconsistencies :: price_report
  po_inconsistencies :: po_report

text \<open>Part A of \<^verbatim>\<open>process_pdf\<close> once tables were found, up to its \<^verbatim>\<open>return\<close>.\<close>

definition table_branch :: "document \<Rightarrow> table list \<Rightarrow> py_error + extraction_result" where
  "table_branch doc tables =
     (let table_rows = parse_camelot_tables tables;
          prods = map table_row_product table_rows;
          txt = extract_text_with_pypdf2 doc;
          invoice_num = extract_invoice_details txt
      in case extract_supplier_info txt of
           Inl e \<Rightarrow> Inl e
         | Inr supp \<Rightarrow>
             (let pnums = extract_po_numbers txt
              in case generate_consistency_report_for_products prods of
                   Inl e \<Rightarrow> Inl e
                 | Inr prod_report \<Rightarrow>
                     Inr \<lparr>invoice_number = invoice_num, supplier_info = supp,
                          po_numbers = pnums, products = prods, services = [],
                          product_inconsistencies = prod_report,
                          service_inconsistencies =
                            \<lparr>price_mismatches = [], total_inconsistencies = 0\<rparr>,
                          po_inconsistencies = generate_po_consistency_report prods pnums\<rparr>))"

text \<open>Part B of \<^verbatim>\<open>process_pdf\<close>; nothing here is inside a \<^verbatim>\<open>try\<close>.\<close>

definition text_branch :: "document \<Rightarrow> py_error + extraction_result" where
  "text_branch doc =
     (case pdf_to_text_fallback doc MIN_CHAR_THRESHOLD of
        Inl e \<Rightarrow> Inl e
      | Inr extracted_text \<Rightarrow>
          (let invoice_num = extract_invoice_details extracted_text
           in case extract_supplier_info extracted_text of
                Inl e \<Rightarrow> Inl e
              | Inr supp \<Rightarrow>
                  (let pnums = extract_po_numbers extracted_text
                   in case extract_line_by_line_items extracted_text of
                        Inl e \<Rightarrow> Inl e
                      | Inr (prods, servs) \<Rightarrow>
                          (case generate_consistency_report_for_products prods of
                             Inl e \<Rightarrow> Inl e
                           | Inr prod_report \<Rightarrow>
                               (case generate_consistency_report_for_services servs of
                                  Inl e \<Rightarrow> Inl e
                                | Inr serv_report \<Rightarrow>
                                    Inr \<lparr>invoice_number = invoice_num, supplier_info = supp,
                                         po_numbers = pnums, products = prods,
                                         services = servs,
                                         product_inconsistencies = prod_report,
                                         service_inconsistencies = serv_report,
                                         po_inconsistencies =
                                           generate_po_consistency_report prods pnums\<rparr>)))))"

text \<open>
  \<^verbatim>\<open>process_pdf\<close>: the \<^verbatim>\<open>try\<close> around part A catches every \<^verbatim>\<open>Exception\<close> raised
  in it, by \<^verbatim>\<open>camelot.read_pdf\<close> or later, and control then reaches part B.
\<close>

definition process_pdf :: "document \<Rightarrow> py_error + extraction_result" where
  "process_pdf doc =
     (case camelot_read doc of
        Inl e \<Rightarrow> text_branch doc
      | Inr tables \<Rightarrow>
          if tables \<noteq> []
          then (case table_branch doc tables of
                  Inl e \<Rightarrow> text_branch doc
                | Inr result \<Rightarrow> Inr result)
          else text_branch doc)"


section \<open>Purchase-order reconciliation\<close>

lemma product_po_list_set:
  "set (product_po_list prods) =
     {po. po \<noteq> [] \<and> (\<exists>p \<in> set prods. po_number p = Some po)}"
  by (induction prods) (auto simp: product_po_list_def split: option.splits)

definition example_po_product :: product where
  "example_po_product =
     \<lparr>product_code = ''PRD-77X'', description = Some ''Power Supply'', quantity = 2,
      unit_price = float_of_decimal 500 (- 2), total_price = float_of_decimal 1000 (- 2),
      po_number = Some ''100''\<rparr>"

text \<open>
  C4. For every list of product records and every header PO-number list, the PO report
  is the difference in both directions: \<open>missing_in_extracted\<close> holds exactly the
  (non-empty) PO numbers of prods that are not in the header list,
  \<open>unused_in_products\<close> exactly the header PO numbers that no product refers to, each
  in its original order, and the total is the sum of the two lengths. For the header
  list 100, 200 and one product with PO 100 the report is \<open>[]\<close> and \<open>[200]\<close>.
\<close>

theorem po_report_set_difference:
  "set (missing_in_extracted (generate_po_consistency_report prods header_pos)) =
     {po. po \<noteq> [] \<and> (\<exists>p \<in> set prods. po_number p = Some po)} - set header_pos
   \<and> set (unused_in_products (generate_po_consistency_report prods header_pos)) =
     set header_pos - {po. po \<noteq> [] \<and> (\<exists>p \<in> set prods. po_number p = Some po)}
   \<and> missing_in_extracted (generate_po_consistency_report prods header_pos) =
     filter (\<lambda>po. po \<notin> set header_pos) (product_po_list prods)
   \<and> unused_in_products (generate_po_consistency_report prods header_pos) =
     filter (\<lambda>po. po \<notin> set (product_po_list prods)) header_pos
   \<and> po_total_inconsistencies (generate_po_consistency_report prods header_pos) =
     length (missing_in_extracted (generate_po_consistency_report prods header_pos))
     + length (unused_in_products (generate_po_consistency_report prods header_pos))
   \<and> generate_po_consistency_report [example_po_product] [''100'', ''200''] =
     \<lparr>missing_in_extracted = [], unused_in_products = [''200''],
      po_total_inconsistencies = 1\<rparr>"
proof -
  have ex: "product_po_list [example_po_product] = [''100'']"
    by (simp add: product_po_list_def example_po_product_def)
  have "generate_po_consistency_report [example_po_product] [''100'', ''200''] =
     \<lparr>missing_in_extracted = [], unused_in_products = [''200''],
      po_total_inconsistencies = 1\<rparr>"
    by (simp add: generate_po_consistency_report_def ex)
  then show ?thesis
    by (auto simp: generate_po_consistency_report_def Let_def product_po_list_set)
qed

theorem po_report_set_difference_witness:
  "set (missing_in_extracted
          (generate_po_consistency_report [example_po_product] [''200'', ''300''])) = {''100''}
   \<and> set (unused_in_products
          (generate_po_consistency_report [example_po_product] [''200'', ''300''])) =
       {''200'', ''300''}
   \<and> po_total_inconsistencies
        (generate_po_consistency_report [example_po_product] [''200'', ''300'']) = 3"
proof -
  let ?r = "generate_po_consistency_report [example_po_product] [''200'', ''300'']"
  have ex: "{po. po \<noteq> [] \<and> (\<exists>p \<in> set [example_po_product]. po_number p = Some po)} = {''100''}"
    by (auto simp: example_po_product_def)
  have pl: "product_po_list [example_po_product] = [''100'']"
    by (simp add: product_po_list_def example_po_product_def)
  note t = po_report_set_difference [of "[example_po_product]" "[''200'', ''300'']", unfolded ex]
  have "set (missing_in_extracted ?r) = {''100''} - set [''200'', ''300'']"
    using t by (rule conjunct1)
  then have a: "set (missing_in_extracted ?r) = {''100''}"
    by simp
  have "set (unused_in_products ?r) = set [''200'', ''300''] - {''100''}"
    using t [THEN conjunct2] by (rule conjunct1)
  then have b: "set (unused_in_products ?r) = {''200'', ''300''}"
    by simp
  have m: "missing_in_extracted ?r = [''100'']"
    using t [THEN conjunct2, THEN conjunct2, THEN conjunct1] by (simp add: pl)
  have u: "unused_in_products ?r = [''200'', ''300'']"
    using t [THEN conjunct2, THEN conjunct2, THEN conjunct2, THEN conjunct1] by (simp add: pl)
  have "po_total_inconsistencies ?r =
          length (missing_in_extracted ?r) + length (unused_in_products ?r)"
    using t [THEN conjunct2, THEN conjunct2, THEN conjunct2, THEN conjunct2]
    by (rule conjunct1)
  then have c: "po_total_inconsistencies ?r = 3"
    by (simp add: m u)
  from a b c show ?thesis
    by (intro conjI)
qed


section \<open>Price reconciliation\<close>

text \<open>
  What the two report functions compare and record, stated apart from their loops:
  the expected value is the product of the quantity, converted to a \<^verbatim>\<open>float\<close>, and
  the unit price; a record differs when the absolute difference to the stated total is
  greater than \<^verbatim>\<open>0.01\<close>.
\<close>

definition product_expected :: "product \<Rightarrow> pyfloat" where
  "product_expected p = fmul (int_to_float (quantity p)) (unit_price p)"

definition product_differs :: "product \<Rightarrow> bool" where
  "product_differs p = fgt (fabs (fsub (product_expected p) (total_price p))) tolerance"

definition product_entry :: "product \<Rightarrow> mismatch" where
  "product_entry p =
     \<lparr>item = product_code p, expected_total = round2 (product_expected p),
      actual_total = total_price p\<rparr>"

definition service_expected :: "service \<Rightarrow> pyfloat" where
  "service_expected s = fmul (int_to_float (hours s)) (rate_per_hour s)"

definition service_differs :: "service \<Rightarrow> bool" where
  "service_differs s = fgt (fabs (fsub (service_expected s) (amount s))) tolerance"

definition service_entry :: "service \<Rightarrow> mismatch" where
  "service_entry s =
     \<lparr>item = service_name s, expected_total = round2 (service_expected s),
      actual_total = amount s\<rparr>"

text \<open>The records of the examples: 3 at 10.0 stated as 31.0, as 30.0, and 1 at 0.0
  stated as 0.01; 2 hours at 5.0 stated as 11.0; a quantity of \<open>2^1024\<close>.\<close>

definition product_3x10_31 :: product where
  "product_3x10_31 =
     \<lparr>product_code = ''PRD-001'', description = None, quantity = 3,
      unit_price = float_of_decimal 100 (- 1), total_price = float_of_decimal 310 (- 1),
      po_number = None\<rparr>"

definition product_3x10_30 :: product where
  "product_3x10_30 =
     \<lparr>product_code = ''PRD-002'', description = None, quantity = 3,
      unit_price = float_of_decimal 100 (- 1), total_price = float_of_decimal 300 (- 1),
      po_number = None\<rparr>"

definition product_boundary :: product where
  "product_boundary =
     \<lparr>product_code = ''PRD-003'', description = None, quantity = 1,
      unit_price = float_of_decimal 0 0, total_price = float_of_decimal 1 (- 2),
      po_number = None\<rparr>"

definition service_2x5_11 :: service where
  "service_2x5_11 =
     \<lparr>service_name = ''Consulting'', hours = 2,
      rate_per_hour = float_of_decimal 50 (- 1), amount = float_of_decimal 110 (- 1)\<rparr>"

definition product_huge :: product where
  "product_huge =
     \<lparr>product_code = ''PRD-004'', description = None, quantity = 2 ^ 1024,
      unit_price = float_of_decimal 10 (- 1), total_price = float_of_decimal 10 (- 1),
      po_number = None\<rparr>"

lemma float_of_int_Inr:
  "float_of_int q \<noteq> Inl OverflowError \<Longrightarrow> float_of_int q = Inr (int_to_float q)"
  by (simp add: float_of_int_def split: pyfloat.splits)

lemma float_of_int_overflow: "float_of_int (2 ^ 1024) = Inl OverflowError"
  by code_simp

lemma product_mismatches_eq:
  "\<forall>p \<in> set ps. float_of_int (quantity p) \<noteq> Inl OverflowError \<Longrightarrow>
   product_mismatches acc ps = Inr (acc @ map product_entry (filter product_differs ps))"
proof (induction ps arbitrary: acc)
  case Nil
  then show ?case by simp
next
  case (Cons p ps)
  then have q: "float_of_int (quantity p) = Inr (int_to_float (quantity p))"
    by (simp add: float_of_int_Inr)
  from Cons show ?case
    by (simp add: q Let_def product_differs_def product_expected_def product_entry_def)
qed

lemma service_mismatches_eq:
  "\<forall>s \<in> set ss. float_of_int (hours s) \<noteq> Inl OverflowError \<Longrightarrow>
   service_mismatches acc ss = Inr (acc @ map service_entry (filter service_differs ss))"
proof (induction ss arbitrary: acc)
  case Nil
  then show ?case by simp
next
  case (Cons s ss)
  then have h: "float_of_int (hours s) = Inr (int_to_float (hours s))"
    by (simp add: float_of_int_Inr)
  from Cons show ?case
    by (simp add: h Let_def service_differs_def service_expected_def service_entry_def)
qed

lemma fgt_irrefl: "\<not> fgt x x"
  by (cases x) (simp_all add: Let_def)

text \<open>
  C3, as the code has it. For every list of product records whose quantities convert to
  a \<^verbatim>\<open>float\<close>, the report holds one entry for each record, in order, whose
  \<open>\<bar>quantity * unit_price - total_price\<bar>\<close> is greater than \<^verbatim>\<open>0.01\<close>, and no other
  entry; the comparison is strict, so a record whose difference equals \<^verbatim>\<open>0.01\<close> is not
  reported; an entry carries the expected total rounded to two decimals and the stated
  total; \<open>total_inconsistencies\<close> is the number of entries. The same holds for
  service records with \<open>hours * rate_per_hour\<close> and \<open>amount\<close>.
\<close>

theorem consistency_reports_threshold:
  assumes "\<forall>p \<in> set prods. float_of_int (quantity p) \<noteq> Inl OverflowError"
    and "\<forall>s \<in> set servs. float_of_int (hours s) \<noteq> Inl OverflowError"
  shows "generate_consistency_report_for_products prods =
           Inr \<lparr>price_mismatches = map product_entry (filter product_differs prods),
                total_inconsistencies = length (filter product_differs prods)\<rparr>
         \<and> generate_consistency_report_for_services servs =
           Inr \<lparr>price_mismatches = map service_entry (filter service_differs servs),
                total_inconsistencies = length (filter service_differs servs)\<rparr>
         \<and> (fabs (fsub (product_expected p) (total_price p)) = tolerance
              \<longrightarrow> \<not> product_differs p)
         \<and> (fabs (fsub (service_expected s) (amount s)) = tolerance
              \<longrightarrow> \<not> service_differs s)"
proof -
  have a: "generate_consistency_report_for_products prods =
           Inr \<lparr>price_mismatches = map product_entry (filter product_differs prods),
                total_inconsistencies = length (filter product_differs prods)\<rparr>"
    using product_mismatches_eq [OF assms(1), of "[]"]
    by (simp add: generate_consistency_report_for_products_def)
  have b: "generate_consistency_report_for_services servs =
           Inr \<lparr>price_mismatches = map service_entry (filter service_differs servs),
                total_inconsistencies = length (filter service_differs servs)\<rparr>"
    using service_mismatches_eq [OF assms(2), of "[]"]
    by (simp add: generate_consistency_report_for_services_def)
  have c: "fabs (fsub (product_expected p) (total_price p)) = tolerance
              \<longrightarrow> \<not> product_differs p"
    by (simp add: product_differs_def fgt_irrefl)
  have d: "fabs (fsub (service_expected s) (amount s)) = tolerance
              \<longrightarrow> \<not> service_differs s"
    by (simp add: service_differs_def fgt_irrefl)
  from a b c d show ?thesis
    by (intro conjI)
qed

text \<open>
  The examples of the specification: 3 at 10.0 stated as 31.0 is reported with expected
  total 30.0 and actual total 31.0; stated as 30.0 it is not; a record whose difference
  is exactly \<^verbatim>\<open>0.01\<close> is not.
\<close>

theorem consistency_reports_threshold_witness:
  "generate_consistency_report_for_products
     [product_3x10_31, product_3x10_30, product_boundary] =
     Inr \<lparr>price_mismatches =
            [\<lparr>item = ''PRD-001'', expected_total = float_of_decimal 300 (- 1),
              actual_total = float_of_decimal 310 (- 1)\<rparr>],
          total_inconsistencies = 1\<rparr>
   \<and> generate_consistency_report_for_services [service_2x5_11] =
     Inr \<lparr>price_mismatches =
            [\<lparr>item = ''Consulting'', expected_total = float_of_decimal 100 (- 1),
              actual_total = float_of_decimal 110 (- 1)\<rparr>],
          total_inconsistencies = 1\<rparr>
   \<and> fabs (fsub (product_expected product_boundary) (total_price product_boundary)) = tolerance
   \<and> \<not> product_differs product_boundary"
proof -
  have h1: "\<forall>p \<in> set [product_3x10_31, product_3x10_30, product_boundary].
              float_of_int (quantity p) \<noteq> Inl OverflowError"
    by code_simp
  have h2: "\<forall>s \<in> set [service_2x5_11]. float_of_int (hours s) \<noteq> Inl OverflowError"
    by code_simp
  have d1: "product_differs product_3x10_31" by code_simp
  have d2: "\<not> product_differs product_3x10_30" by code_simp
  have d3: "fabs (fsub (product_expected product_boundary) (total_price product_boundary))
              = tolerance" by code_simp
  have d4: "service_differs service_2x5_11" by code_simp
  have e1: "product_entry product_3x10_31 =
              \<lparr>item = ''PRD-001'', expected_total = float_of_decimal 300 (- 1),
               actual_total = float_of_decimal 310 (- 1)\<rparr>" by code_simp
  have e2: "service_entry service_2x5_11 =
              \<lparr>item = ''Consulting'', expected_total = float_of_decimal 100 (- 1),
               actual_total = float_of_decimal 110 (- 1)\<rparr>" by code_simp
  note t = consistency_reports_threshold [OF h1 h2, of product_boundary service_2x5_11]
  have d5: "\<not> product_differs product_boundary"
    using t d3 by simp
  have a: "generate_consistency_report_for_products
             [product_3x10_31, product_3x10_30, product_boundary] =
           Inr \<lparr>price_mismatches =
                  [\<lparr>item = ''PRD-001'', expected_total = float_of_decimal 300 (- 1),
                    actual_total = float_of_decimal 310 (- 1)\<rparr>],
                total_inconsistencies = 1\<rparr>"
    using t [THEN conjunct1] by (simp add: d1 d2 d5 e1)
  have b: "generate_consistency_report_for_services [service_2x5_11] =
           Inr \<lparr>price_mismatches =
                  [\<lparr>item = ''Consulting'', expected_total = float_of_decimal 100 (- 1),
                    actual_total = float_of_decimal 110 (- 1)\<rparr>],
                total_inconsistencies = 1\<rparr>"
    using t [THEN conjunct2, THEN conjunct1] by (simp add: d4 e2)
  from a b d3 d5 show ?thesis
    by (intro conjI)
qed

text \<open>
  The claim as stated, for every product record, fails: converting a quantity of
  \<open>2^1024\<close> to a \<^verbatim>\<open>float\<close> raises \<^verbatim>\<open>OverflowError\<close>, and no report is returned.
\<close>

theorem consistency_report_overflow_counterexample:
  "generate_consistency_report_for_products [product_huge] = Inl OverflowError"
proof -
  have "float_of_int (quantity product_huge) = Inl OverflowError"
    unfolding product_huge_def by (simp only: product.select_convs float_of_int_overflow)
  then show ?thesis
    by (simp add: generate_consistency_report_for_products_def)
qed

end
